theory Spec2Isabelle
  imports Main
begin

section \<open>Values, events and projection records\<close>

text \<open>
  The read model of \<^verbatim>\<open>src/domain/readModels/CustomerListReadModel.js\<close> reads properties
  of an event object and writes customer objects through a persistence adapter. A property
  that an event does not carry reads as \<^verbatim>\<open>undefined\<close>, so every property is a JavaScript
  value; the values that occur are the primitive ones, and the numbers the code writes are
  the integers 0 and 1. The \<^verbatim>\<open>switch\<close> of the read model compares such values with
  \<^verbatim>\<open>===\<close>, which on them is equality.
\<close>

datatype jsval = JUndefined | JNull | JBool bool | JNum int | JStr string

text \<open>\<^verbatim>\<open>new Error(message)\<close>: the only kind of exception the code throws.\<close>

datatype error = Error string

type_synonym 'a result = "error + 'a"

text \<open>
  An event, with the properties the read model reads. \<open>dunder_name\<close> is the property
  \<^verbatim>\<open>__name\<close> (the type tag); \<open>event.name\<close> is the customer's name carried by the event.
\<close>

record event =
  dunder_name :: jsval
  customerId :: jsval
  name :: jsval
  email :: jsval
  password :: jsval

text \<open>
  The object the create handler builds:
  \<^verbatim>\<open>{ name: event.name, email: event.email, password: event.password, active: 1 }\<close>.
\<close>

record customer =
  name :: jsval
  email :: jsval
  password :: jsval
  active :: jsval

section \<open>Constants of the modules that are not part of the sources\<close>

text \<open>
  Modelled from the spec: the module \<^verbatim>\<open>../constants/events\<close> is imported by the read model
  but is not among the source files. The spec names the creation event
  \<^verbatim>\<open>"CUSTOMER_CREATED"\<close>; each constant is taken to be the string of its own name.
  \<^verbatim>\<open>CUSTOMER_REGISTERED\<close> is the event the header comment of the read model speaks of.
\<close>

definition CUSTOMER_CREATED :: jsval where
  "CUSTOMER_CREATED = JStr ''CUSTOMER_CREATED''"

definition CUSTOMER_UPDATED :: jsval where
  "CUSTOMER_UPDATED = JStr ''CUSTOMER_UPDATED''"

definition CUSTOMER_DEACTIVATED :: jsval where
  "CUSTOMER_DEACTIVATED = JStr ''CUSTOMER_DEACTIVATED''"

definition CUSTOMER_REACTIVATED :: jsval where
  "CUSTOMER_REACTIVATED = JStr ''CUSTOMER_REACTIVATED''"

definition CUSTOMER_REGISTERED :: jsval where
  "CUSTOMER_REGISTERED = JStr ''CUSTOMER_REGISTERED''"

text \<open>
  Modelled from the spec: the module \<^verbatim>\<open>../constants/collections\<close> is not among the source
  files either. \<open>CUSTOMERS\<close> names the collection of the customer list; its value is not
  visible, and no proof below depends on it.
\<close>

type_synonym collection = string

definition CUSTOMERS :: collection where
  "CUSTOMERS = ''customers''"

section \<open>The persistence adapter\<close>

text \<open>
  Modelled from the spec: the \<^verbatim>\<open>ReadModelPersistenceAdapter\<close> passed to the read model is
  not among the source files. The spec gives its contract: \<^verbatim>\<open>get(collection, id)\<close> returns
  the record or nothing, \<^verbatim>\<open>insert(collection, id, record)\<close> and
  \<^verbatim>\<open>update(collection, id, record)\<close> store a record under the id and return nothing.
  The state of the adapter is the key/value store \<open>records\<close>. In addition \<open>calls\<close> lists
  the calls made on the adapter, oldest first, so that "no insert was issued" can be said.

  The spec does not say what \<^verbatim>\<open>insert\<close> does for an id that is present, nor what
  \<^verbatim>\<open>update\<close> does for one that is absent; both store the record here. The read model
  never makes either call: it inserts only after \<^verbatim>\<open>get\<close> found nothing and updates only
  after \<^verbatim>\<open>get\<close> found a record.
\<close>

datatype call =
  Get collection jsval
| Insert collection jsval customer
| Update collection jsval customer

record adapter =
  records :: "collection \<Rightarrow> jsval \<Rightarrow> customer option"
  calls :: "call list"

definition adapter_get :: "collection \<Rightarrow> jsval \<Rightarrow> adapter \<Rightarrow> customer option \<times> adapter" where
  "adapter_get c k a = (records a c k, a\<lparr>calls := calls a @ [Get c k]\<rparr>)"

definition adapter_insert :: "collection \<Rightarrow> jsval \<Rightarrow> customer \<Rightarrow> adapter \<Rightarrow> adapter" where
  "adapter_insert c k r a =
     a\<lparr>records := (records a)(c := (records a c)(k \<mapsto> r)), calls := calls a @ [Insert c k r]\<rparr>"

definition adapter_update :: "collection \<Rightarrow> jsval \<Rightarrow> customer \<Rightarrow> adapter \<Rightarrow> adapter" where
  "adapter_update c k r a =
     a\<lparr>records := (records a)(c := (records a c)(k \<mapsto> r)), calls := calls a @ [Update c k r]\<rparr>"

text \<open>An adapter that holds nothing and has not been called.\<close>

definition emptyAdapter :: adapter where
  "emptyAdapter = \<lparr>records = (\<lambda>c k. None), calls = []\<rparr>"

section \<open>The handlers of the read model\<close>

text \<open>
  Each handler takes the event and the adapter and returns what the JavaScript function
  does: \<open>Inl\<close> of the error it throws or \<open>Inr ()\<close> when it returns, and the adapter
  as the calls made so far left it. A record that \<^verbatim>\<open>get\<close> returns is an object, hence
  truthy; nothing (\<open>None\<close>) is falsy.

  \<^verbatim>\<open>
  function onCustomerCreatedEvent (event) {
    if (adapter.get(CUSTOMERS, event.customerId)) {
      throw new Error('Customer already exists')
    }
    adapter.insert(CUSTOMERS, event.customerId, {
      name: event.name, email: event.email, password: event.password, active: 1
    })
  }
  \<close>
\<close>

definition onCustomerCreatedEvent :: "event \<Rightarrow> adapter \<Rightarrow> unit result \<times> adapter" where
  "onCustomerCreatedEvent event a =
     (case adapter_get CUSTOMERS (customerId event) a of
        (Some found, a1) \<Rightarrow> (Inl (Error ''Customer already exists''), a1)
      | (None, a1) \<Rightarrow>
          (Inr (),
           adapter_insert CUSTOMERS (customerId event)
             \<lparr>customer.name = event.name event,
              customer.email = event.email event,
              customer.password = event.password event,
              active = JNum 1\<rparr> a1))"

text \<open>
  \<^verbatim>\<open>
  function onCustomerUpdatedEvent (event) {
    const customer = adapter.get(CUSTOMERS, event.customerId)
    if (!customer) {
      throw new Error('Customer not found')
    }
    customer.name = event.name
    adapter.update(CUSTOMERS, event.customerId, customer)
  }
  \<close>
  The assignment changes the object that \<^verbatim>\<open>get\<close> returned; nothing can throw between it
  and the \<^verbatim>\<open>update\<close> that stores the object, so the store changes at the update.
\<close>

definition onCustomerUpdatedEvent :: "event \<Rightarrow> adapter \<Rightarrow> unit result \<times> adapter" where
  "onCustomerUpdatedEvent event a =
     (case adapter_get CUSTOMERS (customerId event) a of
        (None, a1) \<Rightarrow> (Inl (Error ''Customer not found''), a1)
      | (Some customer, a1) \<Rightarrow>
          (Inr (),
           adapter_update CUSTOMERS (customerId event)
             (customer\<lparr>customer.name := event.name event\<rparr>) a1))"

text \<open>The same with \<^verbatim>\<open>customer.active = 0\<close>.\<close>

definition onCustomerDeactivatedEvent :: "event \<Rightarrow> adapter \<Rightarrow> unit result \<times> adapter" where
  "onCustomerDeactivatedEvent event a =
     (case adapter_get CUSTOMERS (customerId event) a of
        (None, a1) \<Rightarrow> (Inl (Error ''Customer not found''), a1)
      | (Some customer, a1) \<Rightarrow>
          (Inr (),
           adapter_update CUSTOMERS (customerId event) (customer\<lparr>active := JNum 0\<rparr>) a1))"

text \<open>The same with \<^verbatim>\<open>customer.active = 1\<close>.\<close>

definition onCustomerReactivatedEvent :: "event \<Rightarrow> adapter \<Rightarrow> unit result \<times> adapter" where
  "onCustomerReactivatedEvent event a =
     (case adapter_get CUSTOMERS (customerId event) a of
        (None, a1) \<Rightarrow> (Inl (Error ''Customer not found''), a1)
      | (Some customer, a1) \<Rightarrow>
          (Inr (),
           adapter_update CUSTOMERS (customerId event) (customer\<lparr>active := JNum 1\<rparr>) a1))"

text \<open>
  \<^verbatim>\<open>
  function onEvent (event) {
    switch (event.__name) {
      case CUSTOMER_CREATED: return onCustomerCreatedEvent(event)
      case CUSTOMER_UPDATED: return onCustomerUpdatedEvent(event)
      case CUSTOMER_DEACTIVATED: return onCustomerDeactivatedEvent(event)
      case CUSTOMER_REACTIVATED: return onCustomerReactivatedEvent(event)
    }
  }
  \<close>
  The cases are tried in order with strict equality; with no case matching and no
  default, the function returns.
\<close>

definition onEvent :: "event \<Rightarrow> adapter \<Rightarrow> unit result \<times> adapter" where
  "onEvent event a =
     (if dunder_name event = CUSTOMER_CREATED then onCustomerCreatedEvent event a
      else if dunder_name event = CUSTOMER_UPDATED then onCustomerUpdatedEvent event a
      else if dunder_name event = CUSTOMER_DEACTIVATED then onCustomerDeactivatedEvent event a
      else if dunder_name event = CUSTOMER_REACTIVATED then onCustomerReactivatedEvent event a
      else (Inr (), a))"

section \<open>Construction of the read model\<close>

text \<open>
  \<^verbatim>\<open>Array.prototype.forEach\<close> calls the function on each element in order; an exception
  thrown by a call ends the loop and is thrown by \<^verbatim>\<open>forEach\<close>, so the elements after
  it are not visited.
\<close>

fun forEach :: "('x \<Rightarrow> 's \<Rightarrow> unit result \<times> 's) \<Rightarrow> 'x list \<Rightarrow> 's \<Rightarrow> unit result \<times> 's" where
  "forEach f [] s = (Inr (), s)"
| "forEach f (x # xs) s =
     (case f x s of
        (Inl err, s1) \<Rightarrow> (Inl err, s1)
      | (Inr u, s1) \<Rightarrow> forEach f xs s1)"

text \<open>
  Modelled from the spec: the event bus is not among the source files. The spec's bus
  registers a handler for every event published afterwards, and publishing calls the
  registered handlers in subscription order, synchronously; a handler's failure is the
  publisher's. The read model subscribes with \<^verbatim>\<open>bus.on('event', onEvent)\<close>.
\<close>

type_synonym handler = "event \<Rightarrow> adapter \<Rightarrow> unit result \<times> adapter"

record bus =
  listeners :: "(string \<times> handler) list"

definition bus_on :: "string \<Rightarrow> handler \<Rightarrow> bus \<Rightarrow> bus" where
  "bus_on channel h b = b\<lparr>listeners := listeners b @ [(channel, h)]\<rparr>"

definition bus_emit :: "string \<Rightarrow> event \<Rightarrow> bus \<Rightarrow> adapter \<Rightarrow> unit result \<times> adapter" where
  "bus_emit channel ev b a =
     forEach (\<lambda>h. h ev) (map snd (filter (\<lambda>l. fst l = channel) (listeners b))) a"

text \<open>The repository, of which the read model reads the array \<^verbatim>\<open>store\<close> of all events.\<close>

record repository =
  store :: "event list"

text \<open>
  The body of the factory after the function declarations:
  \<^verbatim>\<open>
  bus.on('event', onEvent)
  repository.store.forEach(onEvent)
  \<close>
  The result is what the factory throws or that it returns, the bus and the adapter.
\<close>

definition CustomerListReadModel ::
  "bus \<Rightarrow> repository \<Rightarrow> adapter \<Rightarrow> unit result \<times> bus \<times> adapter" where
  "CustomerListReadModel b repository a =
     (let b1 = bus_on ''event'' onEvent b;
          (r, a1) = forEach onEvent (store repository) a
      in (r, b1, a1))"

section \<open>Feeding events to the handler\<close>

text \<open>
  Events that reach the handler one by one, each published on its own (on a bus whose one
  listener is \<^verbatim>\<open>onEvent\<close>, publishing an event is calling \<^verbatim>\<open>onEvent\<close> on it, lemma
  \<open>bus_emit_single\<close>): an error goes to the publisher of that event, and the next event is
  handled on the adapter as it is.
\<close>

fun deliver :: "event list \<Rightarrow> adapter \<Rightarrow> adapter" where
  "deliver [] a = a"
| "deliver (e # es) a = deliver es (snd (onEvent e a))"

text \<open>
  An event sequence of the four handled types in correct order, given the ids created so
  far: an id is created once, and updated, deactivated or reactivated only after it was
  created.
\<close>

fun correct_order :: "jsval set \<Rightarrow> event list \<Rightarrow> bool" where
  "correct_order created [] = True"
| "correct_order created (e # es) =
     (if dunder_name e = CUSTOMER_CREATED
      then customerId e \<notin> created \<and> correct_order (insert (customerId e) created) es
      else if dunder_name e \<in> {CUSTOMER_UPDATED, CUSTOMER_DEACTIVATED, CUSTOMER_REACTIVATED}
      then customerId e \<in> created \<and> correct_order created es
      else False)"

section \<open>The write side\<close>

text \<open>
  Modelled from the spec: the command handler, the repository's command logic, the
  customer aggregate and the event store (\<^verbatim>\<open>CustomerCommandHandler\<close>,
  \<^verbatim>\<open>CustomerCommands\<close>, \<^verbatim>\<open>lib/EventStore\<close>) are not among the source files; only the
  test of the command handler is. The definitions follow sections 4.1 to 4.3 of the spec,
  for the one command the test issues, \<^verbatim>\<open>CreateCustomer(customerId, name)\<close>.
\<close>

datatype command = CreateCustomer jsval jsval

record system =
  sys_repository :: repository
  sys_bus :: bus
  sys_adapter :: adapter

text \<open>
  Modelled from the spec: \<^verbatim>\<open>loadHistory(aggregateId)\<close> returns the events of that
  aggregate, oldest first.
\<close>

definition loadHistory :: "jsval \<Rightarrow> repository \<Rightarrow> event list" where
  "loadHistory aggregateId r = filter (\<lambda>e. customerId e = aggregateId) (store r)"

text \<open>
  Modelled from the spec: \<^verbatim>\<open>append(event)\<close> persists the event at the end of the store
  (its sequence number is its position) and then publishes exactly this event on the bus
  before it returns; a failure of a subscriber is the failure of \<^verbatim>\<open>append\<close>.
\<close>

definition store_append :: "event \<Rightarrow> system \<Rightarrow> unit result \<times> system" where
  "store_append ev sys =
     (let r1 = (sys_repository sys)\<lparr>store := store (sys_repository sys) @ [ev]\<rparr>;
          (res, a1) = bus_emit ''event'' ev (sys_bus sys) (sys_adapter sys)
      in (res, sys\<lparr>sys_repository := r1, sys_adapter := a1\<rparr>))"

text \<open>
  Modelled from the spec: the state of an aggregate is the fold of its history with a
  reducer, from the state "nonexistent". Of the customer only its existence decides the
  create command.
\<close>

datatype aggregate = Nonexistent | Existing

definition apply_event :: "aggregate \<Rightarrow> event \<Rightarrow> aggregate" where
  "apply_event st e = (if dunder_name e = CUSTOMER_CREATED then Existing else st)"

definition load :: "jsval \<Rightarrow> repository \<Rightarrow> aggregate" where
  "load aggregateId r = foldl apply_event Nonexistent (loadHistory aggregateId r)"

text \<open>
  Modelled from the spec: "create" requires the nonexistent state and otherwise fails
  with a domain rule violation, appending nothing; the message is the one the test
  expects (\<^verbatim>\<open>'Error: can not create same customer more than once'\<close> is the error's
  \<^verbatim>\<open>toString()\<close>). On success one creation event is appended. The command carries an id
  and a name, so the event has no email and no password.
\<close>

definition create_customer :: "jsval \<Rightarrow> jsval \<Rightarrow> system \<Rightarrow> unit result \<times> system" where
  "create_customer aggregateId nm sys =
     (case load aggregateId (sys_repository sys) of
        Existing \<Rightarrow> (Inl (Error ''can not create same customer more than once''), sys)
      | Nonexistent \<Rightarrow>
          store_append
            \<lparr>dunder_name = CUSTOMER_CREATED, customerId = aggregateId, event.name = nm,
             event.email = JUndefined, event.password = JUndefined\<rparr> sys)"

text \<open>Modelled from the spec: \<^verbatim>\<open>handle(command)\<close> dispatches by the type of the command.\<close>

definition handle :: "command \<Rightarrow> system \<Rightarrow> unit result \<times> system" where
  "handle cmd sys = (case cmd of CreateCustomer aggregateId nm \<Rightarrow> create_customer aggregateId nm sys)"

text \<open>
  \<^verbatim>\<open>Error.prototype.toString\<close>: the name \<^verbatim>\<open>Error\<close> alone when the message is empty,
  otherwise the name, a colon, a space and the message.
\<close>

definition toString :: "error \<Rightarrow> string" where
  "toString err =
     (case err of Error msg \<Rightarrow> if msg = [] then ''Error'' else ''Error: '' @ msg)"

section \<open>What the handlers do to one record\<close>

text \<open>
  The three handlers that update change one field of the record found. \<open>set_fields\<close> is
  that change as a function of the event; an event of another type changes nothing.
\<close>

definition set_fields :: "event \<Rightarrow> customer \<Rightarrow> customer" where
  "set_fields e c =
     (if dunder_name e = CUSTOMER_UPDATED then c\<lparr>customer.name := event.name e\<rparr>
      else if dunder_name e = CUSTOMER_DEACTIVATED then c\<lparr>active := JNum 0\<rparr>
      else if dunder_name e = CUSTOMER_REACTIVATED then c\<lparr>active := JNum 1\<rparr>
      else c)"

text \<open>
  \<open>project r e\<close> is the record under the id of \<open>e\<close> after \<open>onEvent\<close> has handled
  \<open>e\<close>, when \<open>r\<close> was there before (lemma \<open>onEvent_records\<close>): with no record, only a
  creation event makes one; a record that exists is kept by a creation event, whose
  handler throws.
\<close>

definition project :: "customer option \<Rightarrow> event \<Rightarrow> customer option" where
  "project r e =
     (case r of
        None \<Rightarrow>
          (if dunder_name e = CUSTOMER_CREATED
           then Some \<lparr>customer.name = event.name e, customer.email = event.email e,
                      customer.password = event.password e, active = JNum 1\<rparr>
           else None)
      | Some c \<Rightarrow> Some (set_fields e c))"

section \<open>Concrete events and the scenario of the test\<close>

text \<open>An event with a type tag, a customer id and a name, and no other property.\<close>

definition event_of :: "jsval \<Rightarrow> jsval \<Rightarrow> jsval \<Rightarrow> event" where
  "event_of tag k n =
     \<lparr>dunder_name = tag, customerId = k, event.name = n,
      event.email = JUndefined, event.password = JUndefined\<rparr>"

text \<open>An adapter that holds the record of one customer, under the id \<^verbatim>\<open>'c1'\<close>.\<close>

definition annAdapter :: adapter where
  "annAdapter =
     \<lparr>records = (\<lambda>c k. None)(CUSTOMERS := [JStr ''c1'' \<mapsto>
        \<lparr>customer.name = JStr ''Ann'', customer.email = JStr ''ann@example.org'',
         customer.password = JStr ''secret'', active = JNum 1\<rparr>]),
      calls = []\<rparr>"

text \<open>
  A history in correct order: two customers are created, the first is renamed and then
  deactivated.
\<close>

definition sample_history :: "event list" where
  "sample_history =
     [event_of CUSTOMER_CREATED (JStr ''c1'') (JStr ''Ann''),
      event_of CUSTOMER_UPDATED (JStr ''c1'') (JStr ''Bob''),
      event_of CUSTOMER_CREATED (JStr ''c2'') (JStr ''Cy''),
      event_of CUSTOMER_DEACTIVATED (JStr ''c1'') JUndefined]"


text \<open>
  The constants of \<^verbatim>\<open>src/domain/commandHandlers/CustomerCommandHandler.test.js\<close>:
  \<^verbatim>\<open>
  const CUSTOMER_1_ID = '1234-5678-9012-3456'
  const CUSTOMER_1_NAME = 'Test Customer'
  const createCustomerCommand = CreateCustomer(CUSTOMER_1_ID, CUSTOMER_1_NAME)
  \<close>
\<close>

definition CUSTOMER_1_ID :: jsval where
  "CUSTOMER_1_ID = JStr ''1234-5678-9012-3456''"

definition CUSTOMER_1_NAME :: jsval where
  "CUSTOMER_1_NAME = JStr ''Test Customer''"

definition createCustomerCommand :: command where
  "createCustomerCommand = CreateCustomer CUSTOMER_1_ID CUSTOMER_1_NAME"

text \<open>
  The system before the first command: an empty event store, and a customer list read
  model constructed on an empty bus with an empty adapter.
\<close>

definition initial_system :: system where
  "initial_system =
     (case CustomerListReadModel \<lparr>listeners = []\<rparr> \<lparr>store = []\<rparr> emptyAdapter of
        (r, b1, a1) \<Rightarrow> \<lparr>sys_repository = \<lparr>store = []\<rparr>, sys_bus = b1, sys_adapter = a1\<rparr>)"

section \<open>Facts about the constants and the single handlers\<close>

lemma event_names_distinct:
  "CUSTOMER_CREATED \<noteq> CUSTOMER_UPDATED" "CUSTOMER_CREATED \<noteq> CUSTOMER_DEACTIVATED"
  "CUSTOMER_CREATED \<noteq> CUSTOMER_REACTIVATED" "CUSTOMER_UPDATED \<noteq> CUSTOMER_DEACTIVATED"
  "CUSTOMER_UPDATED \<noteq> CUSTOMER_REACTIVATED" "CUSTOMER_DEACTIVATED \<noteq> CUSTOMER_REACTIVATED"
  "CUSTOMER_UPDATED \<noteq> CUSTOMER_CREATED" "CUSTOMER_DEACTIVATED \<noteq> CUSTOMER_CREATED"
  "CUSTOMER_REACTIVATED \<noteq> CUSTOMER_CREATED" "CUSTOMER_DEACTIVATED \<noteq> CUSTOMER_UPDATED"
  "CUSTOMER_REACTIVATED \<noteq> CUSTOMER_UPDATED" "CUSTOMER_REACTIVATED \<noteq> CUSTOMER_DEACTIVATED"
  by (simp_all add: CUSTOMER_CREATED_def CUSTOMER_UPDATED_def CUSTOMER_DEACTIVATED_def
      CUSTOMER_REACTIVATED_def)

lemma registered_not_handled:
  "CUSTOMER_REGISTERED \<noteq> CUSTOMER_CREATED" "CUSTOMER_REGISTERED \<noteq> CUSTOMER_UPDATED"
  "CUSTOMER_REGISTERED \<noteq> CUSTOMER_DEACTIVATED" "CUSTOMER_REGISTERED \<noteq> CUSTOMER_REACTIVATED"
  by (simp_all add: CUSTOMER_REGISTERED_def CUSTOMER_CREATED_def CUSTOMER_UPDATED_def
      CUSTOMER_DEACTIVATED_def CUSTOMER_REACTIVATED_def)

lemma onEvent_created:
  "dunder_name e = CUSTOMER_CREATED \<Longrightarrow> onEvent e a = onCustomerCreatedEvent e a"
  by (simp add: onEvent_def)

lemma onEvent_updated:
  "dunder_name e = CUSTOMER_UPDATED \<Longrightarrow> onEvent e a = onCustomerUpdatedEvent e a"
  by (simp add: onEvent_def event_names_distinct)

lemma onEvent_deactivated:
  "dunder_name e = CUSTOMER_DEACTIVATED \<Longrightarrow> onEvent e a = onCustomerDeactivatedEvent e a"
  by (simp add: onEvent_def event_names_distinct)

lemma onEvent_reactivated:
  "dunder_name e = CUSTOMER_REACTIVATED \<Longrightarrow> onEvent e a = onCustomerReactivatedEvent e a"
  by (simp add: onEvent_def event_names_distinct)

lemma created_absent:
  "records a CUSTOMERS (customerId e) = None \<Longrightarrow>
   onCustomerCreatedEvent e a =
     (Inr (),
      \<lparr>records = (records a)(CUSTOMERS := (records a CUSTOMERS)(customerId e \<mapsto>
          \<lparr>customer.name = event.name e, customer.email = event.email e,
           customer.password = event.password e, active = JNum 1\<rparr>)),
       calls = calls a @ [Get CUSTOMERS (customerId e),
          Insert CUSTOMERS (customerId e)
            \<lparr>customer.name = event.name e, customer.email = event.email e,
             customer.password = event.password e, active = JNum 1\<rparr>]\<rparr>)"
  by (simp add: onCustomerCreatedEvent_def adapter_get_def adapter_insert_def)

lemma created_present:
  "records a CUSTOMERS (customerId e) = Some c \<Longrightarrow>
   onCustomerCreatedEvent e a =
     (Inl (Error ''Customer already exists''),
      \<lparr>records = records a, calls = calls a @ [Get CUSTOMERS (customerId e)]\<rparr>)"
  by (simp add: onCustomerCreatedEvent_def adapter_get_def)

lemma updated_absent:
  "records a CUSTOMERS (customerId e) = None \<Longrightarrow>
   onCustomerUpdatedEvent e a =
     (Inl (Error ''Customer not found''),
      \<lparr>records = records a, calls = calls a @ [Get CUSTOMERS (customerId e)]\<rparr>)"
  by (simp add: onCustomerUpdatedEvent_def adapter_get_def)

lemma deactivated_absent:
  "records a CUSTOMERS (customerId e) = None \<Longrightarrow>
   onCustomerDeactivatedEvent e a =
     (Inl (Error ''Customer not found''),
      \<lparr>records = records a, calls = calls a @ [Get CUSTOMERS (customerId e)]\<rparr>)"
  by (simp add: onCustomerDeactivatedEvent_def adapter_get_def)

lemma reactivated_absent:
  "records a CUSTOMERS (customerId e) = None \<Longrightarrow>
   onCustomerReactivatedEvent e a =
     (Inl (Error ''Customer not found''),
      \<lparr>records = records a, calls = calls a @ [Get CUSTOMERS (customerId e)]\<rparr>)"
  by (simp add: onCustomerReactivatedEvent_def adapter_get_def)

lemma updated_present:
  "records a CUSTOMERS (customerId e) = Some c \<Longrightarrow>
   onCustomerUpdatedEvent e a =
     (Inr (),
      \<lparr>records = (records a)(CUSTOMERS := (records a CUSTOMERS)(customerId e \<mapsto>
          c\<lparr>customer.name := event.name e\<rparr>)),
       calls = calls a @ [Get CUSTOMERS (customerId e),
          Update CUSTOMERS (customerId e) (c\<lparr>customer.name := event.name e\<rparr>)]\<rparr>)"
  by (simp add: onCustomerUpdatedEvent_def adapter_get_def adapter_update_def)

lemma deactivated_present:
  "records a CUSTOMERS (customerId e) = Some c \<Longrightarrow>
   onCustomerDeactivatedEvent e a =
     (Inr (),
      \<lparr>records = (records a)(CUSTOMERS := (records a CUSTOMERS)(customerId e \<mapsto>
          c\<lparr>active := JNum 0\<rparr>)),
       calls = calls a @ [Get CUSTOMERS (customerId e),
          Update CUSTOMERS (customerId e) (c\<lparr>active := JNum 0\<rparr>)]\<rparr>)"
  by (simp add: onCustomerDeactivatedEvent_def adapter_get_def adapter_update_def)

lemma reactivated_present:
  "records a CUSTOMERS (customerId e) = Some c \<Longrightarrow>
   onCustomerReactivatedEvent e a =
     (Inr (),
      \<lparr>records = (records a)(CUSTOMERS := (records a CUSTOMERS)(customerId e \<mapsto>
          c\<lparr>active := JNum 1\<rparr>)),
       calls = calls a @ [Get CUSTOMERS (customerId e),
          Update CUSTOMERS (customerId e) (c\<lparr>active := JNum 1\<rparr>)]\<rparr>)"
  by (simp add: onCustomerReactivatedEvent_def adapter_get_def adapter_update_def)

lemma onEvent_absent:
  assumes "dunder_name e \<in> {CUSTOMER_UPDATED, CUSTOMER_DEACTIVATED, CUSTOMER_REACTIVATED}"
    and "records a CUSTOMERS (customerId e) = None"
  shows "onEvent e a = (Inl (Error ''Customer not found''),
      \<lparr>records = records a, calls = calls a @ [Get CUSTOMERS (customerId e)]\<rparr>)"
  using assms
  by (auto simp: onEvent_updated onEvent_deactivated onEvent_reactivated
      updated_absent deactivated_absent reactivated_absent)

section \<open>The handlers record by record\<close>

lemma onEvent_records:
  "records (snd (onEvent e a)) col k =
     (if col = CUSTOMERS \<and> k = customerId e then project (records a CUSTOMERS k) e
      else records a col k)"
proof (cases "records a CUSTOMERS (customerId e)")
  case None
  then show ?thesis
    by (auto simp: onEvent_def project_def event_names_distinct created_absent updated_absent
        deactivated_absent reactivated_absent)
next
  case (Some c)
  then show ?thesis
    by (auto simp: onEvent_def project_def set_fields_def event_names_distinct created_present
        updated_present deactivated_present reactivated_present)
qed

lemma deliver_records:
  "records (deliver es a) col k =
     (if col = CUSTOMERS
      then foldl project (records a CUSTOMERS k) (filter (\<lambda>e. customerId e = k) es)
      else records a col k)"
  by (induction es arbitrary: a) (auto simp: onEvent_records)

lemma foldl_project_Some:
  "foldl project (Some c) l = Some (foldl (\<lambda>c e. set_fields e c) c l)"
  by (induction l arbitrary: c) (simp_all add: project_def)

lemma set_fields_swap:
  "set_fields x (set_fields e c) = set_fields e (set_fields x c) \<or>
   set_fields x (set_fields e c) = set_fields x c"
  by (simp add: set_fields_def)

lemma set_fields_absorb:
  "set_fields e (foldl (\<lambda>c e. set_fields e c) (set_fields e c) l) =
   set_fields e (foldl (\<lambda>c e. set_fields e c) c l)"
proof (induction l arbitrary: c)
  case Nil
  show ?case by (simp add: set_fields_def)
next
  case (Cons x l)
  from set_fields_swap [of x e c] show ?case
  proof
    assume "set_fields x (set_fields e c) = set_fields e (set_fields x c)"
    then show ?thesis using Cons.IH [of "set_fields x c"] by simp
  next
    assume "set_fields x (set_fields e c) = set_fields x c"
    then show ?thesis by simp
  qed
qed

lemma set_fields_twice:
  "foldl (\<lambda>c e. set_fields e c) (foldl (\<lambda>c e. set_fields e c) c l) l =
   foldl (\<lambda>c e. set_fields e c) c l"
proof (induction l rule: rev_induct)
  case Nil
  show ?case by simp
next
  case (snoc e l)
  then show ?case by (simp add: set_fields_absorb)
qed

lemma set_fields_created: "dunder_name e = CUSTOMER_CREATED \<Longrightarrow> set_fields e c = c"
  by (simp add: set_fields_def event_names_distinct)

lemma correct_order_first:
  "correct_order created es \<Longrightarrow> k \<notin> created \<Longrightarrow>
   filter (\<lambda>e. customerId e = k) es = e # l \<Longrightarrow> dunder_name e = CUSTOMER_CREATED"
proof (induction es arbitrary: created)
  case Nil
  then show ?case by simp
next
  case (Cons x es)
  then show ?case
    by (auto split: if_splits)
qed

lemma project_twice:
  assumes "correct_order {} es"
  shows "foldl project (foldl project None (filter (\<lambda>e. customerId e = k) es))
           (filter (\<lambda>e. customerId e = k) es) =
         foldl project None (filter (\<lambda>e. customerId e = k) es)"
proof (cases "filter (\<lambda>e. customerId e = k) es")
  case Nil
  then show ?thesis by simp
next
  case (Cons e l)
  with assms have "dunder_name e = CUSTOMER_CREATED"
    using correct_order_first [of "{}" es k e l] by simp
  then show ?thesis
    using Cons by (simp add: project_def foldl_project_Some set_fields_created set_fields_twice)
qed

lemma deliver_twice:
  assumes "correct_order {} es" and "records a CUSTOMERS = Map.empty"
  shows "records (deliver es (deliver es a)) = records (deliver es a)"
proof (intro ext)
  fix col k
  show "records (deliver es (deliver es a)) col k = records (deliver es a) col k"
    using assms project_twice [of es k] by (simp add: deliver_records)
qed

lemma forEach_deliver:
  "fst (forEach onEvent es a) = Inr () \<Longrightarrow> snd (forEach onEvent es a) = deliver es a"
proof (induction es arbitrary: a)
  case Nil
  then show ?case by simp
next
  case (Cons e es)
  then show ?case
    by (cases "onEvent e a") (auto split: sum.splits)
qed

lemma correct_order_succeeds:
  "correct_order created es \<Longrightarrow> created = dom (records a CUSTOMERS) \<Longrightarrow>
   fst (forEach onEvent es a) = Inr ()"
proof (induction es arbitrary: a created)
  case Nil
  then show ?case by simp
next
  case (Cons e es)
  show ?case
  proof (cases "dunder_name e = CUSTOMER_CREATED")
    case True
    with Cons.prems have absent: "records a CUSTOMERS (customerId e) = None"
      and rest: "correct_order (insert (customerId e) created) es"
      by auto
    from True absent have step: "fst (onEvent e a) = Inr ()"
      by (simp add: onEvent_created created_absent)
    have "insert (customerId e) created = dom (records (snd (onEvent e a)) CUSTOMERS)"
      using True absent Cons.prems(2) by (simp add: onEvent_created created_absent)
    from Cons.IH [OF rest this] step show ?thesis
      by (cases "onEvent e a") (auto split: sum.splits)
  next
    case False
    with Cons.prems have tag: "dunder_name e \<in> {CUSTOMER_UPDATED, CUSTOMER_DEACTIVATED, CUSTOMER_REACTIVATED}"
      and present: "customerId e \<in> dom (records a CUSTOMERS)"
      and rest: "correct_order created es"
      by (auto split: if_splits)
    from present obtain c where c: "records a CUSTOMERS (customerId e) = Some c" by auto
    from tag c have step: "fst (onEvent e a) = Inr ()"
      by (auto simp: onEvent_updated onEvent_deactivated onEvent_reactivated
          updated_present deactivated_present reactivated_present)
    have "created = dom (records (snd (onEvent e a)) CUSTOMERS)"
      using tag c Cons.prems(2)
      by (auto simp: onEvent_updated onEvent_deactivated onEvent_reactivated
          updated_present deactivated_present reactivated_present split: if_splits)
    from Cons.IH [OF rest this] step show ?thesis
      by (cases "onEvent e a") (auto split: sum.splits)
  qed
qed

lemma forEach_records_again:
  assumes "correct_order {} es" and "records a CUSTOMERS = Map.empty"
  shows "records (snd (forEach onEvent es (deliver es a))) = records (deliver es a) \<and>
         (es \<noteq> [] \<longrightarrow> fst (forEach onEvent es (deliver es a)) = Inl (Error ''Customer already exists''))"
proof (cases es)
  case Nil
  then show ?thesis by simp
next
  case (Cons e es')
  with assms have tag: "dunder_name e = CUSTOMER_CREATED" by (auto split: if_splits)
  have "records (deliver es a) CUSTOMERS (customerId e) =
      foldl project None (filter (\<lambda>x. customerId x = customerId e) es)"
    using assms(2) by (simp add: deliver_records)
  also have "\<dots> = foldl project (project None e) (filter (\<lambda>x. customerId x = customerId e) es')"
    using Cons by simp
  finally have "records (deliver es a) CUSTOMERS (customerId e) \<noteq> None"
    using tag by (simp add: project_def foldl_project_Some)
  then obtain c where "records (deliver es a) CUSTOMERS (customerId e) = Some c" by auto
  with tag have "onEvent e (deliver es a) = (Inl (Error ''Customer already exists''),
      \<lparr>records = records (deliver es a), calls = calls (deliver es a) @ [Get CUSTOMERS (customerId e)]\<rparr>)"
    by (simp add: onEvent_created created_present)
  with Cons show ?thesis by simp
qed

section \<open>Facts about the replay and the bus\<close>


lemma deliver_append: "deliver (xs @ ys) a = deliver ys (deliver xs a)"
  by (induction xs arbitrary: a) simp_all



lemma bus_emit_single:
  "bus_emit channel ev \<lparr>listeners = [(channel, h)]\<rparr> s = h ev s"
  by (cases "h ev s") (auto simp: bus_emit_def split: sum.splits)


section \<open>The claims\<close>

text \<open>
  C1: a \<^verbatim>\<open>CUSTOMER_CREATED\<close> event whose customer id has no record in the
  \<open>CUSTOMERS\<close> collection makes the handler return, with exactly one record added to the
  store (name, email and password of the event, active flag 1) and one \<^verbatim>\<open>insert\<close>
  issued after the \<^verbatim>\<open>get\<close>; when a record is present the handler throws the error
  'Customer already exists', the store is unchanged and no \<^verbatim>\<open>insert\<close> is issued.
\<close>

theorem created_event_inserts_or_fails:
  assumes "dunder_name e = CUSTOMER_CREATED"
  shows "(records a CUSTOMERS (customerId e) = None \<longrightarrow>
            fst (onEvent e a) = Inr () \<and>
            records (snd (onEvent e a)) =
              (records a)(CUSTOMERS := (records a CUSTOMERS)(customerId e \<mapsto>
                 \<lparr>customer.name = event.name e, customer.email = event.email e,
                  customer.password = event.password e, active = JNum 1\<rparr>)) \<and>
            calls (snd (onEvent e a)) =
              calls a @ [Get CUSTOMERS (customerId e),
                Insert CUSTOMERS (customerId e)
                  \<lparr>customer.name = event.name e, customer.email = event.email e,
                   customer.password = event.password e, active = JNum 1\<rparr>]) \<and>
         (records a CUSTOMERS (customerId e) \<noteq> None \<longrightarrow>
            fst (onEvent e a) = Inl (Error ''Customer already exists'') \<and>
            records (snd (onEvent e a)) = records a \<and>
            calls (snd (onEvent e a)) = calls a @ [Get CUSTOMERS (customerId e)])"
  using assms by (auto simp: onEvent_created created_absent created_present)

theorem created_event_witness:
  "dunder_name (event_of CUSTOMER_CREATED (JStr ''c1'') (JStr ''Ann'')) = CUSTOMER_CREATED \<and>
   records emptyAdapter CUSTOMERS (JStr ''c1'') = None \<and>
   fst (onEvent (event_of CUSTOMER_CREATED (JStr ''c1'') (JStr ''Ann'')) emptyAdapter) = Inr () \<and>
   records (snd (onEvent (event_of CUSTOMER_CREATED (JStr ''c1'') (JStr ''Ann'')) emptyAdapter))
       CUSTOMERS (JStr ''c1'') =
     Some \<lparr>customer.name = JStr ''Ann'', customer.email = JUndefined,
            customer.password = JUndefined, active = JNum 1\<rparr> \<and>
   records annAdapter CUSTOMERS (JStr ''c1'') \<noteq> None \<and>
   fst (onEvent (event_of CUSTOMER_CREATED (JStr ''c1'') (JStr ''Bob'')) annAdapter) =
     Inl (Error ''Customer already exists'') \<and>
   records (snd (onEvent (event_of CUSTOMER_CREATED (JStr ''c1'') (JStr ''Bob'')) annAdapter)) =
     records annAdapter"
  using created_event_inserts_or_fails
      [of "event_of CUSTOMER_CREATED (JStr ''c1'') (JStr ''Ann'')" emptyAdapter]
    created_event_inserts_or_fails
      [of "event_of CUSTOMER_CREATED (JStr ''c1'') (JStr ''Bob'')" annAdapter]
  by (simp add: event_of_def emptyAdapter_def annAdapter_def)

text \<open>
  C2: a \<^verbatim>\<open>CUSTOMER_UPDATED\<close>, \<^verbatim>\<open>CUSTOMER_DEACTIVATED\<close> or \<^verbatim>\<open>CUSTOMER_REACTIVATED\<close>
  event whose customer id has no record makes the handler throw the error
  'Customer not found'; the store is unchanged, so no record is created, and the only call
  on the adapter is the \<^verbatim>\<open>get\<close>.
\<close>

theorem missing_customer_fails_unchanged:
  assumes "dunder_name e \<in> {CUSTOMER_UPDATED, CUSTOMER_DEACTIVATED, CUSTOMER_REACTIVATED}"
    and "records a CUSTOMERS (customerId e) = None"
  shows "fst (onEvent e a) = Inl (Error ''Customer not found'') \<and>
         records (snd (onEvent e a)) = records a \<and>
         calls (snd (onEvent e a)) = calls a @ [Get CUSTOMERS (customerId e)]"
  using assms by (simp add: onEvent_absent)

theorem missing_customer_witness:
  "dunder_name (event_of CUSTOMER_DEACTIVATED (JStr ''c2'') JUndefined)
     \<in> {CUSTOMER_UPDATED, CUSTOMER_DEACTIVATED, CUSTOMER_REACTIVATED} \<and>
   records annAdapter CUSTOMERS (customerId (event_of CUSTOMER_DEACTIVATED (JStr ''c2'') JUndefined)) = None \<and>
   fst (onEvent (event_of CUSTOMER_DEACTIVATED (JStr ''c2'') JUndefined) annAdapter) =
     Inl (Error ''Customer not found'') \<and>
   records (snd (onEvent (event_of CUSTOMER_DEACTIVATED (JStr ''c2'') JUndefined) annAdapter)) =
     records annAdapter \<and>
   calls (snd (onEvent (event_of CUSTOMER_DEACTIVATED (JStr ''c2'') JUndefined) annAdapter)) =
     [Get CUSTOMERS (JStr ''c2'')]"
  using missing_customer_fails_unchanged
      [of "event_of CUSTOMER_DEACTIVATED (JStr ''c2'') JUndefined" annAdapter]
  by (simp add: event_of_def annAdapter_def)

text \<open>
  C3: for every event sequence of the four handled types in correct order and every
  adapter with no customer record, the replay of the sequence handles every event without
  an error; feeding the same events again, one by one or by a second replay, leaves the
  records of the projection as the first replay left them. The creation events that are
  fed again make the handler throw 'Customer already exists' and change nothing, and a
  second replay ends at the first of them.
\<close>

theorem replay_then_feed_again:
  assumes "correct_order {} es" and "records a CUSTOMERS = Map.empty"
  shows "fst (forEach onEvent es a) = Inr () \<and>
         snd (forEach onEvent es a) = deliver es a \<and>
         records (deliver es (snd (forEach onEvent es a))) = records (snd (forEach onEvent es a)) \<and>
         records (snd (forEach onEvent es (snd (forEach onEvent es a)))) =
           records (snd (forEach onEvent es a)) \<and>
         (es \<noteq> [] \<longrightarrow>
            fst (forEach onEvent es (snd (forEach onEvent es a))) =
              Inl (Error ''Customer already exists''))"
proof -
  have ok: "fst (forEach onEvent es a) = Inr ()"
    using correct_order_succeeds [of "{}" es a] assms by simp
  then have eq: "snd (forEach onEvent es a) = deliver es a"
    by (rule forEach_deliver)
  show ?thesis
    using ok eq deliver_twice [OF assms] forEach_records_again [OF assms] by simp
qed

theorem replay_then_feed_again_witness:
  "correct_order {} sample_history \<and>
   records emptyAdapter CUSTOMERS = Map.empty \<and>
   fst (forEach onEvent sample_history emptyAdapter) = Inr () \<and>
   records (snd (forEach onEvent sample_history emptyAdapter)) CUSTOMERS (JStr ''c1'') =
     Some \<lparr>customer.name = JStr ''Bob'', customer.email = JUndefined,
            customer.password = JUndefined, active = JNum 0\<rparr> \<and>
   records (deliver sample_history (snd (forEach onEvent sample_history emptyAdapter))) =
     records (snd (forEach onEvent sample_history emptyAdapter)) \<and>
   records (snd (forEach onEvent sample_history (snd (forEach onEvent sample_history emptyAdapter)))) =
     records (snd (forEach onEvent sample_history emptyAdapter))"
proof -
  have order: "correct_order {} sample_history"
    by (simp add: sample_history_def event_of_def event_names_distinct)
  have fresh: "records emptyAdapter CUSTOMERS = Map.empty"
    by (simp add: emptyAdapter_def)
  have c1: "records (snd (forEach onEvent sample_history emptyAdapter)) CUSTOMERS (JStr ''c1'') =
     Some \<lparr>customer.name = JStr ''Bob'', customer.email = JUndefined,
            customer.password = JUndefined, active = JNum 0\<rparr>"
    by (simp add: sample_history_def event_of_def emptyAdapter_def onEvent_created onEvent_updated
        onEvent_deactivated created_absent updated_present deactivated_present)
  from replay_then_feed_again [OF order fresh] order fresh c1 show ?thesis
    by blast
qed

text \<open>
  C4: from an adapter with no record for an id, a \<^verbatim>\<open>CUSTOMER_CREATED\<close>, then a
  \<^verbatim>\<open>CUSTOMER_DEACTIVATED\<close>, then a \<^verbatim>\<open>CUSTOMER_REACTIVATED\<close> event for that id are
  each handled without an error, and the record of the id then has the active flag 1
  (and the name, email and password of the creation event).
\<close>

theorem created_deactivated_reactivated:
  assumes "records a CUSTOMERS k = None"
    and "dunder_name e1 = CUSTOMER_CREATED" and "customerId e1 = k"
    and "dunder_name e2 = CUSTOMER_DEACTIVATED" and "customerId e2 = k"
    and "dunder_name e3 = CUSTOMER_REACTIVATED" and "customerId e3 = k"
  shows "fst (onEvent e1 a) = Inr () \<and>
         fst (onEvent e2 (snd (onEvent e1 a))) = Inr () \<and>
         fst (onEvent e3 (snd (onEvent e2 (snd (onEvent e1 a))))) = Inr () \<and>
         records (snd (onEvent e3 (snd (onEvent e2 (snd (onEvent e1 a)))))) CUSTOMERS k =
           Some \<lparr>customer.name = event.name e1, customer.email = event.email e1,
                 customer.password = event.password e1, active = JNum 1\<rparr> \<and>
         forEach onEvent [e1, e2, e3] a =
           (Inr (), snd (onEvent e3 (snd (onEvent e2 (snd (onEvent e1 a))))))"
  using assms
  by (simp add: onEvent_created onEvent_deactivated onEvent_reactivated
      created_absent deactivated_present reactivated_present)

theorem created_deactivated_reactivated_witness:
  "records emptyAdapter CUSTOMERS (JStr ''c1'') = None \<and>
   fst (forEach onEvent
     [event_of CUSTOMER_CREATED (JStr ''c1'') (JStr ''Ann''),
      event_of CUSTOMER_DEACTIVATED (JStr ''c1'') JUndefined,
      event_of CUSTOMER_REACTIVATED (JStr ''c1'') JUndefined] emptyAdapter) = Inr () \<and>
   records (snd (forEach onEvent
     [event_of CUSTOMER_CREATED (JStr ''c1'') (JStr ''Ann''),
      event_of CUSTOMER_DEACTIVATED (JStr ''c1'') JUndefined,
      event_of CUSTOMER_REACTIVATED (JStr ''c1'') JUndefined] emptyAdapter)) CUSTOMERS (JStr ''c1'') =
     Some \<lparr>customer.name = JStr ''Ann'', customer.email = JUndefined,
            customer.password = JUndefined, active = JNum 1\<rparr>"
  using created_deactivated_reactivated
      [of emptyAdapter "JStr ''c1''" "event_of CUSTOMER_CREATED (JStr ''c1'') (JStr ''Ann'')"
          "event_of CUSTOMER_DEACTIVATED (JStr ''c1'') JUndefined"
          "event_of CUSTOMER_REACTIVATED (JStr ''c1'') JUndefined"]
  by (simp add: event_of_def emptyAdapter_def)

text \<open>
  C5: a \<^verbatim>\<open>CUSTOMER_UPDATED\<close> event whose customer id has a record makes the handler
  return; the record then has the name of the event and the email, password and active
  flag it had, and every record under another id or in another collection is unchanged.
\<close>

theorem updated_event_changes_name_only:
  assumes "dunder_name e = CUSTOMER_UPDATED"
    and "records a CUSTOMERS (customerId e) = Some c"
  shows "fst (onEvent e a) = Inr () \<and>
         records (snd (onEvent e a)) CUSTOMERS (customerId e) =
           Some \<lparr>customer.name = event.name e, customer.email = customer.email c,
                 customer.password = customer.password c, active = active c\<rparr> \<and>
         (\<forall>col k. (col, k) \<noteq> (CUSTOMERS, customerId e) \<longrightarrow>
            records (snd (onEvent e a)) col k = records a col k)"
  using assms by (auto simp: onEvent_updated updated_present)

theorem updated_event_witness:
  "dunder_name (event_of CUSTOMER_UPDATED (JStr ''c1'') (JStr ''Bob'')) = CUSTOMER_UPDATED \<and>
   records annAdapter CUSTOMERS (JStr ''c1'') =
     Some \<lparr>customer.name = JStr ''Ann'', customer.email = JStr ''ann@example.org'',
            customer.password = JStr ''secret'', active = JNum 1\<rparr> \<and>
   fst (onEvent (event_of CUSTOMER_UPDATED (JStr ''c1'') (JStr ''Bob'')) annAdapter) = Inr () \<and>
   records (snd (onEvent (event_of CUSTOMER_UPDATED (JStr ''c1'') (JStr ''Bob'')) annAdapter))
       CUSTOMERS (JStr ''c1'') =
     Some \<lparr>customer.name = JStr ''Bob'', customer.email = JStr ''ann@example.org'',
            customer.password = JStr ''secret'', active = JNum 1\<rparr> \<and>
   records (snd (onEvent (event_of CUSTOMER_UPDATED (JStr ''c1'') (JStr ''Bob'')) annAdapter))
       CUSTOMERS (JStr ''c2'') = records annAdapter CUSTOMERS (JStr ''c2'')"
  using updated_event_changes_name_only
      [of "event_of CUSTOMER_UPDATED (JStr ''c1'') (JStr ''Bob'')" annAdapter
          "\<lparr>customer.name = JStr ''Ann'', customer.email = JStr ''ann@example.org'',
            customer.password = JStr ''secret'', active = JNum 1\<rparr>"]
  by (simp add: event_of_def annAdapter_def)

text \<open>
  C6: when the customer id of the event has a record, a \<^verbatim>\<open>CUSTOMER_DEACTIVATED\<close> event
  sets the active flag of the record to 0 and a \<^verbatim>\<open>CUSTOMER_REACTIVATED\<close> event sets it
  to 1; the name, email and password of the record are unchanged.
\<close>

theorem activation_events_set_flag:
  assumes "records a CUSTOMERS (customerId e) = Some c"
  shows "(dunder_name e = CUSTOMER_DEACTIVATED \<longrightarrow>
            fst (onEvent e a) = Inr () \<and>
            records (snd (onEvent e a)) CUSTOMERS (customerId e) =
              Some \<lparr>customer.name = customer.name c, customer.email = customer.email c,
                    customer.password = customer.password c, active = JNum 0\<rparr>) \<and>
         (dunder_name e = CUSTOMER_REACTIVATED \<longrightarrow>
            fst (onEvent e a) = Inr () \<and>
            records (snd (onEvent e a)) CUSTOMERS (customerId e) =
              Some \<lparr>customer.name = customer.name c, customer.email = customer.email c,
                    customer.password = customer.password c, active = JNum 1\<rparr>)"
  using assms
  by (auto simp: onEvent_deactivated onEvent_reactivated deactivated_present reactivated_present)

theorem activation_events_witness:
  "records annAdapter CUSTOMERS (JStr ''c1'') =
     Some \<lparr>customer.name = JStr ''Ann'', customer.email = JStr ''ann@example.org'',
            customer.password = JStr ''secret'', active = JNum 1\<rparr> \<and>
   fst (onEvent (event_of CUSTOMER_DEACTIVATED (JStr ''c1'') JUndefined) annAdapter) = Inr () \<and>
   records (snd (onEvent (event_of CUSTOMER_DEACTIVATED (JStr ''c1'') JUndefined) annAdapter))
       CUSTOMERS (JStr ''c1'') =
     Some \<lparr>customer.name = JStr ''Ann'', customer.email = JStr ''ann@example.org'',
            customer.password = JStr ''secret'', active = JNum 0\<rparr> \<and>
   fst (onEvent (event_of CUSTOMER_REACTIVATED (JStr ''c1'') JUndefined)
       (snd (onEvent (event_of CUSTOMER_DEACTIVATED (JStr ''c1'') JUndefined) annAdapter))) = Inr () \<and>
   records (snd (onEvent (event_of CUSTOMER_REACTIVATED (JStr ''c1'') JUndefined)
       (snd (onEvent (event_of CUSTOMER_DEACTIVATED (JStr ''c1'') JUndefined) annAdapter))))
       CUSTOMERS (JStr ''c1'') =
     Some \<lparr>customer.name = JStr ''Ann'', customer.email = JStr ''ann@example.org'',
            customer.password = JStr ''secret'', active = JNum 1\<rparr>"
  using activation_events_set_flag
      [of annAdapter "event_of CUSTOMER_DEACTIVATED (JStr ''c1'') JUndefined"
          "\<lparr>customer.name = JStr ''Ann'', customer.email = JStr ''ann@example.org'',
            customer.password = JStr ''secret'', active = JNum 1\<rparr>"]
    activation_events_set_flag
      [of "snd (onEvent (event_of CUSTOMER_DEACTIVATED (JStr ''c1'') JUndefined) annAdapter)"
          "event_of CUSTOMER_REACTIVATED (JStr ''c1'') JUndefined"
          "\<lparr>customer.name = JStr ''Ann'', customer.email = JStr ''ann@example.org'',
            customer.password = JStr ''secret'', active = JNum 0\<rparr>"]
  by (simp add: event_of_def annAdapter_def event_names_distinct)

text \<open>
  C7: an event whose \<^verbatim>\<open>__name\<close> is none of the four handled names, a
  \<^verbatim>\<open>CUSTOMER_REGISTERED\<close> event among them, makes \<^verbatim>\<open>onEvent\<close> return with the adapter
  as it was: the store is unchanged and no call was made on the adapter.
\<close>

theorem unrecognised_event_ignored:
  "(dunder_name e \<notin> {CUSTOMER_CREATED, CUSTOMER_UPDATED, CUSTOMER_DEACTIVATED, CUSTOMER_REACTIVATED}
      \<longrightarrow> onEvent e a = (Inr (), a)) \<and>
   (dunder_name e = CUSTOMER_REGISTERED \<longrightarrow> onEvent e a = (Inr (), a))"
  by (simp add: onEvent_def registered_not_handled)

theorem unrecognised_event_witness:
  "dunder_name (event_of CUSTOMER_REGISTERED (JStr ''c1'') (JStr ''Ann'')) = CUSTOMER_REGISTERED \<and>
   dunder_name (event_of CUSTOMER_REGISTERED (JStr ''c1'') (JStr ''Ann''))
     \<notin> {CUSTOMER_CREATED, CUSTOMER_UPDATED, CUSTOMER_DEACTIVATED, CUSTOMER_REACTIVATED} \<and>
   onEvent (event_of CUSTOMER_REGISTERED (JStr ''c1'') (JStr ''Ann'')) annAdapter =
     (Inr (), annAdapter) \<and>
   onEvent (event_of (JNum 7) (JStr ''c1'') JNull) emptyAdapter = (Inr (), emptyAdapter)"
  using unrecognised_event_ignored
      [of "event_of CUSTOMER_REGISTERED (JStr ''c1'') (JStr ''Ann'')" annAdapter]
    unrecognised_event_ignored [of "event_of (JNum 7) (JStr ''c1'') JNull" emptyAdapter]
  by (simp add: event_of_def CUSTOMER_REGISTERED_def CUSTOMER_CREATED_def CUSTOMER_UPDATED_def
      CUSTOMER_DEACTIVATED_def CUSTOMER_REACTIVATED_def)




text \<open>
  C9: for every customer id and name, on the system with an empty store and the read
  model subscribed, the first \<^verbatim>\<open>handle(CreateCustomer(id, name))\<close> returns and the store then
  holds exactly one event, the \<^verbatim>\<open>CUSTOMER_CREATED\<close> event of the id; a second create
  command for the same id (with the same or another name) fails with the error whose
  message is 'can not create same customer more than once' and whose \<^verbatim>\<open>toString()\<close> is
  \<^verbatim>\<open>'Error: can not create same customer more than once'\<close>, and appends nothing; the
  read model then holds exactly one record, active, with the name of the first command,
  whether it was subscribed before the commands or is built from the store afterwards.
  The scenario of the test, with the id \<^verbatim>\<open>'1234-5678-9012-3456'\<close> and the name
  \<^verbatim>\<open>'Test Customer'\<close>, is the instance stated after it.
\<close>

theorem create_customer_twice:
  "case handle (CreateCustomer k n) initial_system of
     (r1, sys1) \<Rightarrow>
       (case handle (CreateCustomer k n2) sys1 of
          (r2, sys2) \<Rightarrow>
            r1 = Inr () \<and>
            store (sys_repository sys1) = [event_of CUSTOMER_CREATED k n] \<and>
            r2 = Inl (Error ''can not create same customer more than once'') \<and>
            map_sum toString id r2 = Inl ''Error: can not create same customer more than once'' \<and>
            store (sys_repository sys2) = [event_of CUSTOMER_CREATED k n] \<and>
            records (sys_adapter sys2) CUSTOMERS =
              [k \<mapsto>
                 \<lparr>customer.name = n, customer.email = JUndefined,
                  customer.password = JUndefined, active = JNum 1\<rparr>] \<and>
            records (snd (snd (CustomerListReadModel \<lparr>listeners = []\<rparr> (sys_repository sys2) emptyAdapter)))
                CUSTOMERS =
              [k \<mapsto>
                 \<lparr>customer.name = n, customer.email = JUndefined,
                  customer.password = JUndefined, active = JNum 1\<rparr>])"
proof -
  have init: "initial_system =
      \<lparr>sys_repository = \<lparr>store = []\<rparr>, sys_bus = \<lparr>listeners = [(''event'', onEvent)]\<rparr>,
       sys_adapter = emptyAdapter\<rparr>"
    by (simp add: initial_system_def CustomerListReadModel_def bus_on_def)
  have created: "onEvent (event_of CUSTOMER_CREATED k n) emptyAdapter =
      (Inr (),
       \<lparr>records = (\<lambda>c i. None)(CUSTOMERS := [k \<mapsto>
           \<lparr>customer.name = n, customer.email = JUndefined,
            customer.password = JUndefined, active = JNum 1\<rparr>]),
        calls = [Get CUSTOMERS k,
          Insert CUSTOMERS k
            \<lparr>customer.name = n, customer.email = JUndefined,
             customer.password = JUndefined, active = JNum 1\<rparr>]\<rparr>)"
    by (simp add: onEvent_created created_absent event_of_def emptyAdapter_def)
  have first: "handle (CreateCustomer k n) initial_system =
      (Inr (),
       \<lparr>sys_repository = \<lparr>store = [event_of CUSTOMER_CREATED k n]\<rparr>,
        sys_bus = \<lparr>listeners = [(''event'', onEvent)]\<rparr>,
        sys_adapter = snd (onEvent (event_of CUSTOMER_CREATED k n) emptyAdapter)\<rparr>)"
    using created
    by (simp add: init handle_def create_customer_def load_def
        loadHistory_def store_append_def bus_emit_def event_of_def)
  have second: "handle (CreateCustomer k n2)
       \<lparr>sys_repository = \<lparr>store = [event_of CUSTOMER_CREATED k n]\<rparr>,
        sys_bus = \<lparr>listeners = [(''event'', onEvent)]\<rparr>,
        sys_adapter = snd (onEvent (event_of CUSTOMER_CREATED k n) emptyAdapter)\<rparr> =
      (Inl (Error ''can not create same customer more than once''),
       \<lparr>sys_repository = \<lparr>store = [event_of CUSTOMER_CREATED k n]\<rparr>,
        sys_bus = \<lparr>listeners = [(''event'', onEvent)]\<rparr>,
        sys_adapter = snd (onEvent (event_of CUSTOMER_CREATED k n) emptyAdapter)\<rparr>)"
    by (simp add: handle_def create_customer_def load_def
        loadHistory_def apply_event_def event_of_def)
  have rebuilt: "CustomerListReadModel \<lparr>listeners = []\<rparr>
       \<lparr>store = [event_of CUSTOMER_CREATED k n]\<rparr> emptyAdapter =
      (Inr (), bus_on ''event'' onEvent \<lparr>listeners = []\<rparr>,
       snd (onEvent (event_of CUSTOMER_CREATED k n) emptyAdapter))"
    using created by (simp add: CustomerListReadModel_def)
  show ?thesis
    using first second rebuilt created by (simp add: toString_def)
qed

theorem create_customer_twice_witness:
  "fst (handle createCustomerCommand initial_system) = Inr () \<and>
   store (sys_repository (snd (handle createCustomerCommand initial_system))) =
     [event_of CUSTOMER_CREATED (JStr ''1234-5678-9012-3456'') (JStr ''Test Customer'')] \<and>
   fst (handle createCustomerCommand (snd (handle createCustomerCommand initial_system))) =
     Inl (Error ''can not create same customer more than once'') \<and>
   map_sum toString id
       (fst (handle createCustomerCommand (snd (handle createCustomerCommand initial_system)))) =
     Inl ''Error: can not create same customer more than once'' \<and>
   store (sys_repository
       (snd (handle createCustomerCommand (snd (handle createCustomerCommand initial_system))))) =
     [event_of CUSTOMER_CREATED (JStr ''1234-5678-9012-3456'') (JStr ''Test Customer'')] \<and>
   records (sys_adapter
       (snd (handle createCustomerCommand (snd (handle createCustomerCommand initial_system)))))
       CUSTOMERS =
     [JStr ''1234-5678-9012-3456'' \<mapsto>
        \<lparr>customer.name = JStr ''Test Customer'', customer.email = JUndefined,
         customer.password = JUndefined, active = JNum 1\<rparr>]"
  using create_customer_twice [of CUSTOMER_1_ID CUSTOMER_1_NAME CUSTOMER_1_NAME]
  by (simp add: createCustomerCommand_def CUSTOMER_1_ID_def CUSTOMER_1_NAME_def
      split: prod.splits)

text \<open>
  C10: whenever \<^verbatim>\<open>onEvent\<close> throws, the store of the adapter is as it was before the
  event and the only call made on the adapter is the \<^verbatim>\<open>get\<close>, so no \<^verbatim>\<open>insert\<close> and
  no \<^verbatim>\<open>update\<close> was issued; and it throws only for a creation event whose id has a record
  ('Customer already exists') and for an update, deactivation or reactivation event whose
  id has none ('Customer not found').
\<close>

theorem handler_failure_atomic:
  assumes "fst (onEvent e a) = Inl err"
  shows "records (snd (onEvent e a)) = records a \<and>
         calls (snd (onEvent e a)) = calls a @ [Get CUSTOMERS (customerId e)] \<and>
         (if dunder_name e = CUSTOMER_CREATED
          then records a CUSTOMERS (customerId e) \<noteq> None \<and> err = Error ''Customer already exists''
          else dunder_name e \<in> {CUSTOMER_UPDATED, CUSTOMER_DEACTIVATED, CUSTOMER_REACTIVATED} \<and>
               records a CUSTOMERS (customerId e) = None \<and> err = Error ''Customer not found'')"
proof (cases "records a CUSTOMERS (customerId e)")
  case None
  with assms show ?thesis
    by (auto simp: onEvent_def event_names_distinct created_absent updated_absent
        deactivated_absent reactivated_absent split: if_splits)
next
  case (Some c)
  with assms show ?thesis
    by (auto simp: onEvent_def event_names_distinct created_present updated_present
        deactivated_present reactivated_present split: if_splits)
qed

theorem handler_failure_witness:
  "fst (onEvent (event_of CUSTOMER_CREATED (JStr ''c1'') (JStr ''Bob'')) annAdapter) =
     Inl (Error ''Customer already exists'') \<and>
   records (snd (onEvent (event_of CUSTOMER_CREATED (JStr ''c1'') (JStr ''Bob'')) annAdapter)) =
     records annAdapter \<and>
   calls (snd (onEvent (event_of CUSTOMER_CREATED (JStr ''c1'') (JStr ''Bob'')) annAdapter)) =
     [Get CUSTOMERS (JStr ''c1'')]"
proof -
  have failed: "fst (onEvent (event_of CUSTOMER_CREATED (JStr ''c1'') (JStr ''Bob'')) annAdapter) =
      Inl (Error ''Customer already exists'')"
    by (simp add: onEvent_created created_present event_of_def annAdapter_def)
  from handler_failure_atomic [OF failed] failed show ?thesis
    by (simp add: event_of_def annAdapter_def)
qed

end
